theory Spec2Isabelle
  imports Main
begin

section \<open>Tasks API: a shallow embedding of app.py\<close>

text \<open>
  The program is one module, \<^verbatim>\<open>app.py\<close>: two pydantic models, a MongoDB collection and
  five FastAPI handlers. The handlers are modelled as functions from the request and the
  collection to a response and the collection afterwards. The libraries the handlers call
  (bson, pydantic, pymongo, FastAPI) are modelled as far as the handlers use them, each
  next to the place of the source that calls it.

  Scope of the model. A Python dict is read at the keys the two models know
  (\<^verbatim>\<open>_id\<close>, \<^verbatim>\<open>id\<close>, \<^verbatim>\<open>title\<close>, \<^verbatim>\<open>description\<close>, \<^verbatim>\<open>priority\<close>, \<^verbatim>\<open>status\<close>); at each key it
  has no entry, \<^verbatim>\<open>None\<close>, or a value of the JSON type the field declares (a string, or an
  integer for \<^verbatim>\<open>priority\<close>). Other keys are ignored by both models (pydantic's default),
  and values of another JSON type are outside the model. A character of a \<^typ>\<open>string\<close>
  stands for one code point.
\<close>

subsection \<open>Errors\<close>

text \<open>
  Exceptions no handler catches. FastAPI answers each of them with status 500.
\<close>

datatype fault =
    InvalidId
  | OverflowError
  | DuplicateKeyError
  | OperationFailure
  | ValidationError
  | ResponseValidationError

text \<open>
  What a request ends with when it does not succeed: the request body fails validation
  (FastAPI answers 422), a handler raises \<^verbatim>\<open>HTTPException(status_code=n)\<close>, or an
  exception escapes the handler.
\<close>

datatype error =
    RequestValidationError
  | HTTPException nat
  | Unhandled fault

type_synonym 'a response = "error + nat \<times> 'a"

definition http_status :: "'a response \<Rightarrow> nat" where
  "http_status r =
     (case r of
        Inr (code, _) \<Rightarrow> code
      | Inl RequestValidationError \<Rightarrow> 422
      | Inl (HTTPException code) \<Rightarrow> code
      | Inl (Unhandled _) \<Rightarrow> 500)"

subsection \<open>bson.ObjectId\<close>

text \<open>
  An ObjectId holds bytes. \<^verbatim>\<open>ObjectId(s)\<close> of a string takes a string of length 24 and
  reads it with \<^verbatim>\<open>bytes.fromhex\<close>, which takes two hexadecimal digits per byte and skips
  ASCII whitespace before a byte; anything else raises \<^verbatim>\<open>InvalidId\<close>. \<^verbatim>\<open>str\<close> of an
  ObjectId is the lower-case hexadecimal text of its bytes.
  (A string of length 24 that holds whitespace is accepted with fewer than 12 bytes, as
  in the library.)
\<close>

datatype ObjectId = OID "nat list"

definition isspace :: "char \<Rightarrow> bool" where
  "isspace c = ((of_char c :: nat) \<in> {9, 10, 11, 12, 13, 32})"

definition hex_val :: "char \<Rightarrow> nat option" where
  "hex_val c =
     (let n = (of_char c :: nat) in
      if 48 \<le> n \<and> n \<le> 57 then Some (n - 48)
      else if 97 \<le> n \<and> n \<le> 102 then Some (n - 87)
      else if 65 \<le> n \<and> n \<le> 70 then Some (n - 55)
      else None)"

fun fromhex :: "string \<Rightarrow> nat list option" where
  "fromhex [] = Some []"
| "fromhex [c] = (if isspace c then Some [] else None)"
| "fromhex (c # d # cs) =
     (if isspace c then fromhex (d # cs)
      else (case (hex_val c, hex_val d) of
              (Some h, Some l) \<Rightarrow> map_option ((#) (16 * h + l)) (fromhex cs)
            | _ \<Rightarrow> None))"

definition ObjectId :: "string \<Rightarrow> fault + ObjectId" where
  "ObjectId oid =
     (if length oid = 24 then
        (case fromhex oid of Some bs \<Rightarrow> Inr (OID bs) | None \<Rightarrow> Inl InvalidId)
      else Inl InvalidId)"

definition hex_digit :: "nat \<Rightarrow> char" where
  "hex_digit n = char_of (if n < 10 then 48 + n else 87 + n)"

fun hexlify :: "nat list \<Rightarrow> string" where
  "hexlify [] = []"
| "hexlify (b # bs) = hex_digit (b div 16) # hex_digit (b mod 16) # hexlify bs"

fun str_ObjectId :: "ObjectId \<Rightarrow> string" where
  "str_ObjectId (OID bs) = hexlify bs"

text \<open>
  The ObjectId the driver generates for a new document has 12 bytes.
\<close>

fun generated :: "ObjectId \<Rightarrow> bool" where
  "generated (OID bs) = (length bs = 12 \<and> list_all (\<lambda>b. b < 256) bs)"

subsection \<open>Python dicts at the keys of the models\<close>

text \<open>
  What a dict has at one key: no entry, \<^verbatim>\<open>None\<close>, or a value.
\<close>

datatype 'a entry = Absent | Null | Given 'a

text \<open>
  A dict, read at the six keys. It stands for a JSON request body, for the result of
  \<^verbatim>\<open>model_dump\<close> and for the argument of \<^verbatim>\<open>$set\<close>. A member of \<^verbatim>\<open>StatusEnum\<close> is a
  \<^verbatim>\<open>str\<close> (the class derives from \<^verbatim>\<open>str\<close>) and stands in a dict as its value.
\<close>

record dict =
  key_alias_id :: "string entry"
  key_id :: "string entry"
  key_title :: "string entry"
  key_description :: "string entry"
  key_priority :: "int entry"
  key_status :: "string entry"

definition empty_dict :: dict where
  "empty_dict =
     \<lparr>key_alias_id = Absent, key_id = Absent, key_title = Absent,
      key_description = Absent, key_priority = Absent, key_status = Absent\<rparr>"

fun present :: "'a entry \<Rightarrow> nat" where
  "present Absent = 0"
| "present Null = 1"
| "present (Given v) = 1"

definition len :: "dict \<Rightarrow> nat" where
  "len d =
     present (key_alias_id d) + present (key_id d) + present (key_title d) +
     present (key_description d) + present (key_priority d) + present (key_status d)"

subsection \<open>The models: StatusEnum, TaskModel, UpdateTaskModel\<close>

datatype StatusEnum = Status_done | Status_undone | Status_progress

fun StatusEnum_value :: "StatusEnum \<Rightarrow> string" where
  "StatusEnum_value Status_done = ''done''"
| "StatusEnum_value Status_undone = ''undone''"
| "StatusEnum_value Status_progress = ''progress''"

definition StatusEnum_of :: "string \<Rightarrow> StatusEnum option" where
  "StatusEnum_of s =
     (if s = ''done'' then Some Status_done
      else if s = ''undone'' then Some Status_undone
      else if s = ''progress'' then Some Status_progress
      else None)"

text \<open>
  \<^verbatim>\<open>Field(...)\<close>: the constraints pydantic enforces on a string are \<^verbatim>\<open>min_length\<close> and
  \<^verbatim>\<open>max_length\<close>, on an integer \<^verbatim>\<open>gt\<close>, \<^verbatim>\<open>ge\<close>, \<^verbatim>\<open>lt\<close> and \<^verbatim>\<open>le\<close> (of which the
  source uses none). A keyword \<^verbatim>\<open>Field\<close> does not know, such as \<^verbatim>\<open>min\<close> and \<^verbatim>\<open>max\<close>, is
  kept as extra data of the JSON schema and constrains nothing.
\<close>

record Field =
  min_length :: "nat option"
  max_length :: "nat option"
  ge :: "int option"
  le :: "int option"
  extra :: "(string \<times> int) list"

definition title_Field :: Field where
  "title_Field =
     \<lparr>min_length = Some 3, max_length = Some 100, ge = None, le = None, extra = []\<rparr>"

definition description_Field :: Field where
  "description_Field =
     \<lparr>min_length = Some 3, max_length = Some 500, ge = None, le = None, extra = []\<rparr>"

definition priority_Field :: Field where
  "priority_Field =
     \<lparr>min_length = None, max_length = None, ge = None, le = None,
      extra = [(''min'', 1), (''max'', 10)]\<rparr>"

definition validate_str :: "Field \<Rightarrow> string \<Rightarrow> string option" where
  "validate_str f s =
     (if (case min_length f of None \<Rightarrow> True | Some n \<Rightarrow> n \<le> length s) \<and>
         (case max_length f of None \<Rightarrow> True | Some n \<Rightarrow> length s \<le> n)
      then Some s else None)"

definition validate_int :: "Field \<Rightarrow> int \<Rightarrow> int option" where
  "validate_int f n =
     (if (case ge f of None \<Rightarrow> True | Some b \<Rightarrow> b \<le> n) \<and>
         (case le f of None \<Rightarrow> True | Some b \<Rightarrow> n \<le> b)
      then Some n else None)"

text \<open>
  The three ways a field reads its entry. A field without a default is \<^emph>\<open>required\<close>; a
  field with a default takes it when the key has no entry, and pydantic does not validate
  a default; a field of type \<^verbatim>\<open>Optional[T]\<close> with default \<^verbatim>\<open>None\<close> accepts \<^verbatim>\<open>None\<close>.
  The result \<^term>\<open>None\<close> is a validation error.
\<close>

fun required :: "('a \<Rightarrow> 'b option) \<Rightarrow> 'a entry \<Rightarrow> 'b option" where
  "required v (Given x) = v x"
| "required v Null = None"
| "required v Absent = None"

fun with_default :: "'b \<Rightarrow> ('a \<Rightarrow> 'b option) \<Rightarrow> 'a entry \<Rightarrow> 'b option" where
  "with_default dflt v (Given x) = v x"
| "with_default dflt v Null = None"
| "with_default dflt v Absent = Some dflt"

fun optional :: "('a \<Rightarrow> 'b option) \<Rightarrow> 'a entry \<Rightarrow> 'b option option" where
  "optional v (Given x) = map_option Some (v x)"
| "optional v Null = Some None"
| "optional v Absent = Some None"

text \<open>
  \<^verbatim>\<open>id: Optional[PyObjectId] = Field(alias="_id", default=None)\<close>: the value is read at the
  alias; \<^verbatim>\<open>TaskModel\<close> sets \<^verbatim>\<open>populate_by_name\<close>, so it reads the key \<^verbatim>\<open>id\<close> when the
  alias has no entry, and \<^verbatim>\<open>UpdateTaskModel\<close> does not. \<^verbatim>\<open>BeforeValidator(str)\<close> leaves a
  string as it is.
\<close>

fun entry_option :: "'a entry \<Rightarrow> 'a option" where
  "entry_option (Given x) = Some x"
| "entry_option Null = None"
| "entry_option Absent = None"

record TaskModel =
  task_id :: "string option"
  title :: string
  description :: string
  priority :: int
  status :: StatusEnum

definition TaskModel_validate :: "dict \<Rightarrow> TaskModel option" where
  "TaskModel_validate d =
     (case (required (validate_str title_Field) (key_title d),
            with_default [] (validate_str description_Field) (key_description d),
            with_default 10 (validate_int priority_Field) (key_priority d),
            required StatusEnum_of (key_status d)) of
        (Some t, Some ds, Some p, Some s) \<Rightarrow>
          Some \<lparr>task_id = (if key_alias_id d = Absent then entry_option (key_id d)
                           else entry_option (key_alias_id d)),
                title = t, description = ds, priority = p, status = s\<rparr>
      | _ \<Rightarrow> None)"

record UpdateTaskModel =
  upd_id :: "string option"
  upd_title :: "string option"
  upd_description :: "string option"
  upd_priority :: "int option"
  upd_status :: "StatusEnum option"

definition UpdateTaskModel_validate :: "dict \<Rightarrow> UpdateTaskModel option" where
  "UpdateTaskModel_validate d =
     (case (optional (validate_str title_Field) (key_title d),
            optional (validate_str description_Field) (key_description d),
            optional (validate_int priority_Field) (key_priority d),
            optional StatusEnum_of (key_status d)) of
        (Some t, Some ds, Some p, Some s) \<Rightarrow>
          Some \<lparr>upd_id = entry_option (key_alias_id d),
                upd_title = t, upd_description = ds, upd_priority = p, upd_status = s\<rparr>
      | _ \<Rightarrow> None)"

text \<open>
  \<^verbatim>\<open>model_dump(by_alias=True)\<close>: every field under its alias, \<^verbatim>\<open>None\<close> included.
  \<^verbatim>\<open>exclude=["id"]\<close> leaves the field \<^verbatim>\<open>id\<close> out.
\<close>

fun dumped :: "'a option \<Rightarrow> 'a entry" where
  "dumped None = Null"
| "dumped (Some x) = Given x"

definition TaskModel_dump_exclude_id :: "TaskModel \<Rightarrow> dict" where
  "TaskModel_dump_exclude_id m =
     \<lparr>key_alias_id = Absent, key_id = Absent,
      key_title = Given (title m),
      key_description = Given (description m),
      key_priority = Given (priority m),
      key_status = Given (StatusEnum_value (status m))\<rparr>"

definition UpdateTaskModel_dump :: "UpdateTaskModel \<Rightarrow> dict" where
  "UpdateTaskModel_dump m =
     \<lparr>key_alias_id = dumped (upd_id m), key_id = Absent,
      key_title = dumped (upd_title m),
      key_description = dumped (upd_description m),
      key_priority = dumped (upd_priority m),
      key_status = dumped (map_option StatusEnum_value (upd_status m))\<rparr>"

text \<open>
  \<^verbatim>\<open>{k: v for k, v in d.items() if v is not None}\<close>
\<close>

fun not_None :: "'a entry \<Rightarrow> 'a entry" where
  "not_None Null = Absent"
| "not_None e = e"

definition drop_None :: "dict \<Rightarrow> dict" where
  "drop_None d =
     \<lparr>key_alias_id = not_None (key_alias_id d), key_id = not_None (key_id d),
      key_title = not_None (key_title d),
      key_description = not_None (key_description d),
      key_priority = not_None (key_priority d),
      key_status = not_None (key_status d)\<rparr>"

subsection \<open>The collection (motor / pymongo)\<close>

text \<open>
  A document of the collection \<^verbatim>\<open>tasks\<close>: its \<^verbatim>\<open>_id\<close> and what it has at the four other
  keys. The collection is the list of its documents in the order the store returns them.
\<close>

datatype bson_id = Oid ObjectId | StrId string | NullId

record document =
  doc_id :: bson_id
  doc_title :: "string entry"
  doc_description :: "string entry"
  doc_priority :: "int entry"
  doc_status :: "string entry"

type_synonym collection = "document list"

text \<open>
  BSON has integers of 32 and 64 bits; encoding a larger Python int raises
  \<^verbatim>\<open>OverflowError\<close>.
\<close>

definition int64 :: "int entry \<Rightarrow> bool" where
  "int64 e = (case e of Given n \<Rightarrow> - (2 ^ 63) \<le> n \<and> n < 2 ^ 63 | _ \<Rightarrow> True)"

fun find_one :: "bson_id \<Rightarrow> collection \<Rightarrow> document option" where
  "find_one k [] = None"
| "find_one k (d # ds) = (if doc_id d = k then Some d else find_one k ds)"

text \<open>
  \<^verbatim>\<open>insert_one(document)\<close>: the driver gives a document without the key \<^verbatim>\<open>_id\<close> a new
  ObjectId (the argument \<open>new\<close>); the server refuses an \<^verbatim>\<open>_id\<close> the collection has. The
  result is \<^verbatim>\<open>inserted_id\<close> and the collection.
\<close>

fun bson_id_of :: "ObjectId \<Rightarrow> string entry \<Rightarrow> bson_id" where
  "bson_id_of new Absent = Oid new"
| "bson_id_of new Null = NullId"
| "bson_id_of new (Given s) = StrId s"

definition insert_one :: "ObjectId \<Rightarrow> dict \<Rightarrow> collection \<Rightarrow> fault + bson_id \<times> collection" where
  "insert_one new d c =
     (let k = bson_id_of new (key_alias_id d) in
      if \<not> int64 (key_priority d) then Inl OverflowError
      else if find_one k c \<noteq> None then Inl DuplicateKeyError
      else Inr (k, c @ [\<lparr>doc_id = k, doc_title = key_title d,
                          doc_description = key_description d,
                          doc_priority = key_priority d,
                          doc_status = key_status d\<rparr>]))"

text \<open>
  \<^verbatim>\<open>{"$set": fields}\<close> on a document: every key of the dict is written. The server
  refuses a \<^verbatim>\<open>$set\<close> that would change \<^verbatim>\<open>_id\<close>.
\<close>

fun set_entry :: "'a entry \<Rightarrow> 'a entry \<Rightarrow> 'a entry" where
  "set_entry Absent old = old"
| "set_entry e old = e"

definition apply_set :: "dict \<Rightarrow> document \<Rightarrow> document" where
  "apply_set flds d =
     d\<lparr>doc_title := set_entry (key_title flds) (doc_title d),
       doc_description := set_entry (key_description flds) (doc_description d),
       doc_priority := set_entry (key_priority flds) (doc_priority d),
       doc_status := set_entry (key_status flds) (doc_status d)\<rparr>"

fun changes_id :: "string entry \<Rightarrow> bson_id \<Rightarrow> bool" where
  "changes_id Absent k = False"
| "changes_id Null k = (k \<noteq> NullId)"
| "changes_id (Given s) k = (k \<noteq> StrId s)"

fun replace_first :: "bson_id \<Rightarrow> document \<Rightarrow> collection \<Rightarrow> collection" where
  "replace_first k d' [] = []"
| "replace_first k d' (d # ds) = (if doc_id d = k then d' # ds else d # replace_first k d' ds)"

text \<open>
  \<^verbatim>\<open>find_one_and_update({"_id": k}, {"$set": fields}, return_document=AFTER)\<close>: the first
  document with that \<^verbatim>\<open>_id\<close> is updated and returned as it is afterwards; \<^verbatim>\<open>None\<close> when
  there is none.
\<close>

definition find_one_and_update ::
  "bson_id \<Rightarrow> dict \<Rightarrow> collection \<Rightarrow> fault + document option \<times> collection" where
  "find_one_and_update k flds c =
     (if \<not> int64 (key_priority flds) then Inl OverflowError
      else (case find_one k c of
              None \<Rightarrow> Inr (None, c)
            | Some d \<Rightarrow>
                if changes_id (key_alias_id flds) (doc_id d) then Inl OperationFailure
                else Inr (Some (apply_set flds d), replace_first k (apply_set flds d) c)))"

text \<open>
  \<^verbatim>\<open>delete_one({"_id": k})\<close>: the first document with that \<^verbatim>\<open>_id\<close> is removed; the result
  is \<^verbatim>\<open>deleted_count\<close> and the collection.
\<close>

fun remove_first :: "bson_id \<Rightarrow> collection \<Rightarrow> collection" where
  "remove_first k [] = []"
| "remove_first k (d # ds) = (if doc_id d = k then ds else d # remove_first k ds)"

definition delete_one :: "bson_id \<Rightarrow> collection \<Rightarrow> nat \<times> collection" where
  "delete_one k c = (case find_one k c of None \<Rightarrow> (0, c) | Some d \<Rightarrow> (1, remove_first k c))"

text \<open>
  \<^verbatim>\<open>find().to_list(n)\<close>: the first \<open>n\<close> documents.
\<close>

definition to_list :: "nat \<Rightarrow> collection \<Rightarrow> document list" where
  "to_list n c = take n c"

subsection \<open>Documents as the models read them\<close>

text \<open>
  The driver returns a document as a dict. Its \<^verbatim>\<open>_id\<close> is an ObjectId or a string, and the
  field's \<^verbatim>\<open>BeforeValidator(str)\<close> makes a string of it; an \<^verbatim>\<open>_id\<close> that is \<^verbatim>\<open>None\<close>
  stays \<^verbatim>\<open>None\<close>.
\<close>

fun str_id :: "bson_id \<Rightarrow> string entry" where
  "str_id (Oid oid) = Given (str_ObjectId oid)"
| "str_id (StrId s) = Given s"
| "str_id NullId = Null"

definition dict_of_document :: "document \<Rightarrow> dict" where
  "dict_of_document d =
     \<lparr>key_alias_id = str_id (doc_id d), key_id = Absent,
      key_title = doc_title d,
      key_description = doc_description d,
      key_priority = doc_priority d,
      key_status = doc_status d\<rparr>"

text \<open>
  \<^verbatim>\<open>response_model=M\<close>: FastAPI validates what the handler returns against \<open>M\<close> and sends
  the validated model; a value that fails raises \<^verbatim>\<open>ResponseValidationError\<close>. A handler
  that returns \<^verbatim>\<open>None\<close> fails this validation.
\<close>

definition serialize_response ::
  "(dict \<Rightarrow> 'm option) \<Rightarrow> nat \<Rightarrow> document option \<Rightarrow> 'm response" where
  "serialize_response validate code content =
     (case content of
        None \<Rightarrow> Inl (Unhandled ResponseValidationError)
      | Some d \<Rightarrow>
          (case validate (dict_of_document d) of
             None \<Rightarrow> Inl (Unhandled ResponseValidationError)
           | Some m \<Rightarrow> Inr (code, m)))"

subsection \<open>The handlers\<close>

text \<open>
  \<^verbatim>\<open>POST /tasks/\<close>, \<^verbatim>\<open>create_task\<close>. \<open>new\<close> is the ObjectId the driver generates for this
  insert.
\<close>

definition create_task :: "ObjectId \<Rightarrow> dict \<Rightarrow> collection \<Rightarrow> TaskModel response \<times> collection" where
  "create_task new body c =
     (case TaskModel_validate body of
        None \<Rightarrow> (Inl RequestValidationError, c)
      | Some task \<Rightarrow>
          (case insert_one new (TaskModel_dump_exclude_id task) c of
             Inl f \<Rightarrow> (Inl (Unhandled f), c)
           | Inr (inserted_id, c') \<Rightarrow>
               (serialize_response TaskModel_validate 201 (find_one inserted_id c'), c')))"

text \<open>
  The document \<^verbatim>\<open>create_task\<close> inserts for a validated task: the dumped fields under
  the new \<^verbatim>\<open>_id\<close>.
\<close>

definition inserted_document :: "ObjectId \<Rightarrow> TaskModel \<Rightarrow> document" where
  "inserted_document new task =
     \<lparr>doc_id = Oid new, doc_title = Given (title task),
      doc_description = Given (description task),
      doc_priority = Given (priority task),
      doc_status = Given (StatusEnum_value (status task))\<rparr>"

text \<open>
  \<^verbatim>\<open>GET /tasks/\<close>, \<^verbatim>\<open>list_tasks\<close>. \<^verbatim>\<open>TaskCollection(tasks=...)\<close> validates every document as
  a \<^verbatim>\<open>TaskModel\<close> and raises pydantic's \<^verbatim>\<open>ValidationError\<close> when one fails.
\<close>

fun TaskCollection :: "document list \<Rightarrow> TaskModel list option" where
  "TaskCollection [] = Some []"
| "TaskCollection (d # ds) =
     (case TaskModel_validate (dict_of_document d) of
        None \<Rightarrow> None
      | Some m \<Rightarrow> map_option ((#) m) (TaskCollection ds))"

definition list_tasks :: "collection \<Rightarrow> TaskModel list response" where
  "list_tasks c =
     (case TaskCollection (to_list 1000 c) of
        None \<Rightarrow> Inl (Unhandled ValidationError)
      | Some tasks \<Rightarrow> Inr (200, tasks))"

text \<open>
  \<^verbatim>\<open>GET /tasks/{id}\<close>, \<^verbatim>\<open>show_task\<close>.
\<close>

definition show_task :: "string \<Rightarrow> collection \<Rightarrow> TaskModel response" where
  "show_task id' c =
     (case ObjectId id' of
        Inl f \<Rightarrow> Inl (Unhandled f)
      | Inr oid \<Rightarrow>
          (case find_one (Oid oid) c of
             Some task \<Rightarrow> serialize_response TaskModel_validate 200 (Some task)
           | None \<Rightarrow> Inl (HTTPException 404)))"

text \<open>
  \<^verbatim>\<open>PUT /tasks/{id}\<close>, \<^verbatim>\<open>update_task\<close>. The branch for a non-empty update converts the id
  with \<^verbatim>\<open>ObjectId(id)\<close>; the branch for an empty update looks the string \<^verbatim>\<open>id\<close> up as it
  is.
\<close>

definition update_task ::
  "string \<Rightarrow> dict \<Rightarrow> collection \<Rightarrow> UpdateTaskModel response \<times> collection" where
  "update_task id' body c =
     (case UpdateTaskModel_validate body of
        None \<Rightarrow> (Inl RequestValidationError, c)
      | Some m \<Rightarrow>
          (let task = drop_None (UpdateTaskModel_dump m) in
           if len task \<ge> 1 then
             (case ObjectId id' of
                Inl f \<Rightarrow> (Inl (Unhandled f), c)
              | Inr oid \<Rightarrow>
                  (case find_one_and_update (Oid oid) task c of
                     Inl f \<Rightarrow> (Inl (Unhandled f), c)
                   | Inr (Some update_result, c') \<Rightarrow>
                       (serialize_response UpdateTaskModel_validate 200 (Some update_result), c')
                   | Inr (None, c') \<Rightarrow> (Inl (HTTPException 404), c')))
           else
             (case find_one (StrId id') c of
                Some existing_task \<Rightarrow>
                  (serialize_response UpdateTaskModel_validate 200 (Some existing_task), c)
              | None \<Rightarrow> (Inl (HTTPException 404), c))))"

text \<open>
  \<^verbatim>\<open>DELETE /tasks/{id}\<close>, \<^verbatim>\<open>delete_task\<close>. The response 204 has no body.
\<close>

definition delete_task :: "string \<Rightarrow> collection \<Rightarrow> unit response \<times> collection" where
  "delete_task id' c =
     (case ObjectId id' of
        Inl f \<Rightarrow> (Inl (Unhandled f), c)
      | Inr oid \<Rightarrow>
          (case delete_one (Oid oid) c of
             (deleted_count, c') \<Rightarrow>
               if deleted_count = 1 then (Inr (204, ()), c')
               else (Inl (HTTPException 404), c')))"

subsection \<open>Examples used below\<close>

definition example_oid :: ObjectId where
  "example_oid = OID [80, 127, 31, 119, 188, 248, 108, 215, 153, 67, 144, 17]"

definition example_id :: string where
  "example_id = ''507f1f77bcf86cd799439011''"

text \<open>
  The body \<^verbatim>\<open>{"title": "Buy milk", "status": "undone"}\<close>, and the same with a description.
\<close>

definition buy_milk :: dict where
  "buy_milk = empty_dict\<lparr>key_title := Given ''Buy milk'', key_status := Given ''undone''\<rparr>"

definition buy_milk_described :: dict where
  "buy_milk_described = buy_milk\<lparr>key_description := Given ''2 litres''\<rparr>"

definition milk_document :: "string \<Rightarrow> int \<Rightarrow> document" where
  "milk_document ds p =
     \<lparr>doc_id = Oid example_oid, doc_title = Given ''Buy milk'',
      doc_description = Given ds, doc_priority = Given p, doc_status = Given ''undone''\<rparr>"

definition milk_task :: "string \<Rightarrow> int \<Rightarrow> TaskModel" where
  "milk_task ds p =
     \<lparr>task_id = Some example_id, title = ''Buy milk'', description = ds,
      priority = p, status = Status_undone\<rparr>"

section \<open>Properties\<close>

lemmas model_defs =
  TaskModel_validate_def UpdateTaskModel_validate_def validate_str_def validate_int_def
  title_Field_def description_Field_def priority_Field_def StatusEnum_of_def
  TaskModel_dump_exclude_id_def UpdateTaskModel_dump_def drop_None_def len_def
  insert_one_def find_one_and_update_def delete_one_def to_list_def apply_set_def int64_def
  dict_of_document_def serialize_response_def

lemmas example_defs =
  example_oid_def example_id_def buy_milk_def buy_milk_described_def milk_document_def
  milk_task_def empty_dict_def

subsection \<open>ObjectId: parsing and printing\<close>

lemma hex_val_hex_digit: "n < 16 \<Longrightarrow> hex_val (hex_digit n) = Some n"
  by (auto simp: hex_val_def hex_digit_def Let_def)

lemma not_isspace_hex_digit: "n < 16 \<Longrightarrow> \<not> isspace (hex_digit n)"
  by (auto simp: isspace_def hex_digit_def)

lemma fromhex_hexlify: "list_all (\<lambda>b. b < 256) bs \<Longrightarrow> fromhex (hexlify bs) = Some bs"
proof (induction bs)
  case Nil
  then show ?case by simp
next
  case (Cons b bs)
  then have "b < 256" by simp
  then have b: "b div 16 < 16" "b mod 16 < 16" by presburger+
  have "16 * (b div 16) + b mod 16 = b" by presburger
  with Cons show ?case
    by (simp add: hex_val_hex_digit not_isspace_hex_digit b)
qed

lemma length_hexlify: "length (hexlify bs) = 2 * length bs"
  by (induction bs) simp_all

lemma ObjectId_str_ObjectId: "generated oid \<Longrightarrow> ObjectId (str_ObjectId oid) = Inr oid"
  by (cases oid) (simp add: ObjectId_def fromhex_hexlify length_hexlify)

lemma str_ObjectId_not_empty: "generated oid \<Longrightarrow> str_ObjectId oid \<noteq> []"
  by (cases oid) (auto simp: length_hexlify dest: arg_cong [where f = length])

lemma ObjectId_fault: "ObjectId s = Inl f \<Longrightarrow> f = InvalidId"
  by (auto simp: ObjectId_def split: if_splits option.splits)

lemma ObjectId_example: "ObjectId example_id = Inr example_oid"
  by (simp add: ObjectId_def example_id_def example_oid_def hex_val_def isspace_def)

lemma str_ObjectId_example: "str_ObjectId example_oid = example_id"
  unfolding example_id_def example_oid_def by code_simp

lemma generated_example: "generated example_oid"
  by (simp add: example_oid_def)

subsection \<open>The collection\<close>

lemma find_one_append:
  "find_one k (c @ [d]) =
     (case find_one k c of Some x \<Rightarrow> Some x | None \<Rightarrow> if doc_id d = k then Some d else None)"
  by (induction c) simp_all

lemma find_one_id: "find_one k c = Some d \<Longrightarrow> doc_id d = k"
  by (induction c) (auto split: if_splits)

lemma find_one_None: "find_one k c = None \<longleftrightarrow> k \<notin> doc_id ` set c"
  by (induction c) auto

lemma find_one_split:
  "find_one k c = Some d \<Longrightarrow>
   \<exists>pre post. c = pre @ d # post \<and> find_one k pre = None"
proof (induction c)
  case Nil
  then show ?case by simp
next
  case (Cons x c)
  show ?case
  proof (cases "doc_id x = k")
    case True
    with Cons.prems have "x = d" by simp
    then have "x # c = [] @ d # c \<and> find_one k [] = None" by simp
    then show ?thesis by blast
  next
    case False
    with Cons obtain pre post where "c = pre @ d # post" "find_one k pre = None" by auto
    with False have "x # c = (x # pre) @ d # post \<and> find_one k (x # pre) = None" by simp
    then show ?thesis by blast
  qed
qed

lemma replace_first_split:
  "find_one k pre = None \<Longrightarrow> doc_id d = k \<Longrightarrow>
   replace_first k d' (pre @ d # post) = pre @ d' # post"
  by (induction pre) (auto split: if_splits)

lemma find_one_remove_first:
  "distinct (map doc_id c) \<Longrightarrow> find_one k (remove_first k c) = None"
  by (induction c) (auto simp: find_one_None)

subsection \<open>Validation of the request body\<close>

lemma validate_str_title_short: "length t < 3 \<Longrightarrow> validate_str title_Field t = None"
  by (simp add: validate_str_def title_Field_def)

lemma validate_str_description_short:
  "length ds = 1 \<or> length ds = 2 \<Longrightarrow> validate_str description_Field ds = None"
  by (auto simp: validate_str_def description_Field_def)

lemma StatusEnum_of_value: "StatusEnum_of (StatusEnum_value s) = Some s"
  by (cases s) (simp_all add: StatusEnum_of_def)

lemma TaskModel_validate_title:
  "TaskModel_validate body = Some task \<Longrightarrow>
   validate_str title_Field (title task) = Some (title task)"
  by (cases "key_title body")
     (auto simp: TaskModel_validate_def validate_str_def split: option.splits if_splits)

lemma TaskModel_validate_omitted_description:
  assumes "key_description body = Absent"
    and "TaskModel_validate (body\<lparr>key_description := Given ds\<rparr>) = Some task"
  shows "TaskModel_validate body = Some (task\<lparr>description := []\<rparr>)"
  using assms by (auto simp: TaskModel_validate_def split: option.splits)

text \<open>
  Claim C7. A create request whose \<^verbatim>\<open>title\<close> has fewer than 3 characters is answered with
  the validation error (status 422), and the collection is left as it was: no document is
  inserted.
\<close>

theorem create_task_short_title_rejected:
  assumes "key_title body = Given t" and "length t < 3"
  shows "create_task new body c = (Inl RequestValidationError, c) \<and>
         http_status (fst (create_task new body c)) = 422"
proof -
  have "required (validate_str title_Field) (key_title body) = None"
    using assms by (simp add: validate_str_title_short)
  then have "TaskModel_validate body = None"
    by (simp add: TaskModel_validate_def)
  then show ?thesis
    by (simp add: create_task_def http_status_def)
qed

theorem create_task_short_title_rejected_witness:
  "key_title (buy_milk\<lparr>key_title := Given ''ab''\<rparr>) = Given ''ab'' \<and> length ''ab'' < 3 \<and>
   create_task example_oid (buy_milk\<lparr>key_title := Given ''ab''\<rparr>) [milk_document ''2 litres'' 10]
     = (Inl RequestValidationError, [milk_document ''2 litres'' 10]) \<and>
   http_status (fst (create_task example_oid (buy_milk\<lparr>key_title := Given ''ab''\<rparr>)
     [milk_document ''2 litres'' 10])) = 422"
  using create_task_short_title_rejected
    [of "buy_milk\<lparr>key_title := Given ''ab''\<rparr>" "''ab''" example_oid "[milk_document ''2 litres'' 10]"]
  by (simp add: http_status_def)

subsection \<open>Creating\<close>

lemma insert_one_new:
  "key_alias_id d = Absent \<Longrightarrow> int64 (key_priority d) \<Longrightarrow> find_one (Oid new) c = None \<Longrightarrow>
   insert_one new d c =
     Inr (Oid new, c @ [\<lparr>doc_id = Oid new, doc_title = key_title d,
                          doc_description = key_description d,
                          doc_priority = key_priority d,
                          doc_status = key_status d\<rparr>])"
  by (simp add: insert_one_def Let_def)

lemma create_task_inserted:
  assumes "TaskModel_validate body = Some task"
    and "int64 (Given (priority task))" and "find_one (Oid new) c = None"
  shows "create_task new body c =
           (serialize_response TaskModel_validate 201 (Some (inserted_document new task)),
            c @ [inserted_document new task])"
  using assms
  by (simp add: create_task_def insert_one_new TaskModel_dump_exclude_id_def
      inserted_document_def find_one_append)

lemma TaskModel_validate_inserted:
  assumes "TaskModel_validate body = Some task"
  shows "TaskModel_validate (dict_of_document (inserted_document new task)) =
           map_option (\<lambda>ds. task\<lparr>task_id := Some (str_ObjectId new)\<rparr>)
             (validate_str description_Field (description task))"
  using TaskModel_validate_title [OF assms]
  by (auto simp: TaskModel_validate_def dict_of_document_def inserted_document_def
      StatusEnum_of_value validate_int_def priority_Field_def validate_str_def
      split: option.splits)

text \<open>
  What \<^verbatim>\<open>create_task\<close> does with a body that passes validation, when the priority fits
  BSON and the new \<^verbatim>\<open>_id\<close> is not in the collection: the document is inserted, and the
  response is 201 exactly when the description of the task passes the field's length
  bounds again, which the default \<^verbatim>\<open>""\<close> does not.
\<close>

lemma create_task_response:
  assumes "TaskModel_validate body = Some task"
    and "int64 (Given (priority task))" and "find_one (Oid new) c = None"
  shows "create_task new body c =
           ((case validate_str description_Field (description task) of
               None \<Rightarrow> Inl (Unhandled ResponseValidationError)
             | Some ds \<Rightarrow> Inr (201, task\<lparr>task_id := Some (str_ObjectId new)\<rparr>)),
            c @ [inserted_document new task])"
  by (simp add: create_task_inserted [OF assms] serialize_response_def
      TaskModel_validate_inserted [OF assms(1)] split: option.splits)

text \<open>
  Claim C3. The bounds written for \<^verbatim>\<open>priority\<close> (\<^verbatim>\<open>min=1, max=10\<close>) are not enforced: a
  create request with any priority \<open>p\<close> that BSON can hold passes validation with that
  priority, and the document is created with it. The witness takes the priorities 0 and
  100, both outside 1..10.
\<close>

theorem create_task_priority_not_bounded:
  assumes "- (2 ^ 63) \<le> p" and "p < 2 ^ 63" and "find_one (Oid example_oid) c = None"
  shows "TaskModel_validate (buy_milk_described\<lparr>key_priority := Given p\<rparr>)
           = Some ((milk_task ''2 litres'' p)\<lparr>task_id := None\<rparr>) \<and>
         create_task example_oid (buy_milk_described\<lparr>key_priority := Given p\<rparr>) c
           = (Inr (201, milk_task ''2 litres'' p), c @ [milk_document ''2 litres'' p])"
proof -
  let ?task = "(milk_task ''2 litres'' p)\<lparr>task_id := None\<rparr>"
  have v: "TaskModel_validate (buy_milk_described\<lparr>key_priority := Given p\<rparr>) = Some ?task"
    by (simp add: model_defs example_defs)
  have i: "int64 (Given (priority ?task))"
    using assms by (simp add: int64_def milk_task_def)
  show ?thesis
    using create_task_response [OF v i assms(3)]
    by (simp add: v inserted_document_def milk_document_def milk_task_def validate_str_def
        description_Field_def str_ObjectId_example)
qed

theorem create_task_priority_not_bounded_witness:
  "create_task example_oid (buy_milk_described\<lparr>key_priority := Given 0\<rparr>) []
     = (Inr (201, milk_task ''2 litres'' 0), [milk_document ''2 litres'' 0]) \<and>
   create_task example_oid (buy_milk_described\<lparr>key_priority := Given 100\<rparr>) []
     = (Inr (201, milk_task ''2 litres'' 100), [milk_document ''2 litres'' 100]) \<and>
   priority (milk_task ''2 litres'' 0) = 0 \<and>
   doc_priority (milk_document ''2 litres'' 100) = Given 100"
  using create_task_priority_not_bounded [of 0 "[]"] create_task_priority_not_bounded [of 100 "[]"]
  by (simp add: milk_task_def milk_document_def)

text \<open>
  Claim C4 fails on the code in its first half. The minimum length declared for
  \<^verbatim>\<open>description\<close> is 3. A create body without the key \<^verbatim>\<open>description\<close>, valid otherwise
  (it validates once some description \<open>ds\<close> is put in), passes the validation of the
  request with the description \<^verbatim>\<open>""\<close>, and the document is inserted with the description
  \<^verbatim>\<open>""\<close>; but the request is not answered with the created record: the document returned
  fails \<^verbatim>\<open>response_model=TaskModel\<close> on that description, and the answer is status 500.
  The second half holds: a create body whose description has 1 or 2 characters is
  answered with the validation error (status 422), and nothing is inserted.
\<close>

theorem create_task_omitted_description_fails:
  "min_length description_Field = Some 3 \<and>
   (key_description body = Absent \<and>
    TaskModel_validate (body\<lparr>key_description := Given ds\<rparr>) = Some task \<and>
    int64 (Given (priority task)) \<and> find_one (Oid new) c = None \<longrightarrow>
      TaskModel_validate body = Some (task\<lparr>description := []\<rparr>) \<and>
      create_task new body c
        = (Inl (Unhandled ResponseValidationError),
           c @ [inserted_document new (task\<lparr>description := []\<rparr>)]) \<and>
      doc_description (inserted_document new (task\<lparr>description := []\<rparr>)) = Given [] \<and>
      http_status (fst (create_task new body c)) = 500) \<and>
   (key_description body = Given ds' \<and> (length ds' = 1 \<or> length ds' = 2) \<longrightarrow>
      create_task new body c = (Inl RequestValidationError, c) \<and>
      http_status (fst (create_task new body c)) = 422)"
proof (intro conjI impI)
  show "min_length description_Field = Some 3"
    by (simp add: description_Field_def)
next
  assume a: "key_description body = Absent \<and>
    TaskModel_validate (body\<lparr>key_description := Given ds\<rparr>) = Some task \<and>
    int64 (Given (priority task)) \<and> find_one (Oid new) c = None"
  then have v: "TaskModel_validate body = Some (task\<lparr>description := []\<rparr>)"
    by (blast intro: TaskModel_validate_omitted_description)
  then show "TaskModel_validate body = Some (task\<lparr>description := []\<rparr>)" .
  have i: "int64 (Given (priority (task\<lparr>description := []\<rparr>)))"
    using a by simp
  from a have n: "find_one (Oid new) c = None"
    by simp
  have e: "validate_str description_Field [] = None"
    by (simp add: validate_str_def description_Field_def)
  from create_task_response [OF v i n]
  show r: "create_task new body c
        = (Inl (Unhandled ResponseValidationError),
           c @ [inserted_document new (task\<lparr>description := []\<rparr>)])"
    by (simp add: e)
  show "doc_description (inserted_document new (task\<lparr>description := []\<rparr>)) = Given []"
    by (simp add: inserted_document_def)
  from r show "http_status (fst (create_task new body c)) = 500"
    by (simp add: http_status_def)
next
  assume b: "key_description body = Given ds' \<and> (length ds' = 1 \<or> length ds' = 2)"
  then have "with_default [] (validate_str description_Field) (key_description body) = None"
    by (simp add: validate_str_description_short)
  then have n: "TaskModel_validate body = None"
    by (simp add: TaskModel_validate_def split: option.splits)
  then show "create_task new body c = (Inl RequestValidationError, c)"
    by (simp add: create_task_def)
  from n show "http_status (fst (create_task new body c)) = 422"
    by (simp add: create_task_def http_status_def)
qed

theorem create_task_omitted_description_fails_witness:
  "key_description buy_milk = Absent \<and>
   TaskModel_validate buy_milk_described = Some ((milk_task ''2 litres'' 10)\<lparr>task_id := None\<rparr>) \<and>
   TaskModel_validate buy_milk = Some ((milk_task [] 10)\<lparr>task_id := None\<rparr>) \<and>
   create_task example_oid buy_milk []
     = (Inl (Unhandled ResponseValidationError), [milk_document [] 10]) \<and>
   http_status (fst (create_task example_oid buy_milk [])) = 500 \<and>
   create_task example_oid (buy_milk\<lparr>key_description := Given ''ab''\<rparr>) []
     = (Inl RequestValidationError, [])"
proof -
  let ?task = "(milk_task ''2 litres'' 10)\<lparr>task_id := None\<rparr>"
  have k: "key_description buy_milk = Absent"
    by (simp add: example_defs)
  have v: "TaskModel_validate (buy_milk\<lparr>key_description := Given ''2 litres''\<rparr>) = Some ?task"
    by (simp add: model_defs example_defs)
  have i: "int64 (Given (priority ?task))"
    by (simp add: int64_def milk_task_def)
  have t: "?task\<lparr>description := []\<rparr> = (milk_task [] 10)\<lparr>task_id := None\<rparr>"
    by (simp add: milk_task_def)
  have d: "inserted_document example_oid ((milk_task [] 10)\<lparr>task_id := None\<rparr>) = milk_document [] 10"
    by (simp add: inserted_document_def milk_document_def milk_task_def)
  have s: "key_description (buy_milk\<lparr>key_description := Given ''ab''\<rparr>) = Given ''ab''"
    by simp
  from create_task_omitted_description_fails
         [of buy_milk "''2 litres''" ?task example_oid "[]" "''ab''"] k v i
  have 1: "TaskModel_validate buy_milk = Some ((milk_task [] 10)\<lparr>task_id := None\<rparr>)"
    and 2: "create_task example_oid buy_milk []
      = (Inl (Unhandled ResponseValidationError), [milk_document [] 10])"
    by (simp_all add: t d)
  from create_task_omitted_description_fails
         [of "buy_milk\<lparr>key_description := Given ''ab''\<rparr>" "''2 litres''" ?task example_oid "[]" "''ab''"] s
  have 3: "create_task example_oid (buy_milk\<lparr>key_description := Given ''ab''\<rparr>) []
     = (Inl RequestValidationError, [])"
    by simp
  from k v 1 2 3 show ?thesis
    by (simp add: buy_milk_described_def http_status_def)
qed

subsection \<open>Listing\<close>

lemma TaskCollection_length: "TaskCollection ds = Some ts \<Longrightarrow> length ts = length ds"
  by (induction ds arbitrary: ts) (auto split: option.splits)

lemma TaskCollection_replicate:
  "TaskModel_validate (dict_of_document d) = Some m \<Longrightarrow>
   TaskCollection (replicate n d) = Some (replicate n m)"
  by (induction n) simp_all

lemma validate_milk_document:
  "3 \<le> length ds \<Longrightarrow> length ds \<le> 500 \<Longrightarrow>
   TaskModel_validate (dict_of_document (milk_document ds p)) = Some (milk_task ds p)"
  by (simp add: model_defs milk_document_def milk_task_def str_ObjectId_example)

text \<open>
  Claim C9. Whatever the collection holds, \<^verbatim>\<open>list_tasks\<close> answers with at most 1000
  records: it either returns status 200 with a list of at most 1000 tasks, or one of the
  (at most 1000) documents it read fails \<^verbatim>\<open>TaskModel\<close> and pydantic's error escapes.
  The witness is a collection of 1001 documents, of which 1000 are returned.
\<close>

theorem list_tasks_at_most_1000:
  "(case list_tasks c of
      Inr (code, tasks) \<Rightarrow> code = 200 \<and> length tasks \<le> 1000
    | Inl e \<Rightarrow> e = Unhandled ValidationError)"
  by (auto simp: list_tasks_def to_list_def dest: TaskCollection_length split: option.splits)

theorem list_tasks_at_most_1000_witness:
  "length (replicate 1001 (milk_document ''2 litres'' 10)) = 1001 \<and>
   list_tasks (replicate 1001 (milk_document ''2 litres'' 10))
     = Inr (200, replicate 1000 (milk_task ''2 litres'' 10)) \<and>
   length (replicate 1000 (milk_task ''2 litres'' 10)) \<le> 1000"
  using list_tasks_at_most_1000 [of "replicate 1001 (milk_document ''2 litres'' 10)"]
  by (simp add: list_tasks_def to_list_def TaskCollection_replicate validate_milk_document)

subsection \<open>The collection keeps its ids distinct\<close>

text \<open>
  The store has a unique index on \<^verbatim>\<open>_id\<close>. In the model this is an invariant of the
  handlers: each of them takes a collection with distinct \<^verbatim>\<open>_id\<close>s to one with distinct
  \<^verbatim>\<open>_id\<close>s.
\<close>

lemma map_doc_id_replace_first:
  "doc_id d' = k \<Longrightarrow> map doc_id (replace_first k d' c) = map doc_id c"
  by (induction c) simp_all

lemma set_remove_first: "set (remove_first k c) \<subseteq> set c"
  by (induction c) auto

lemma distinct_remove_first:
  "distinct (map doc_id c) \<Longrightarrow> distinct (map doc_id (remove_first k c))"
proof (induction c)
  case Nil
  then show ?case by simp
next
  case (Cons d c)
  then show ?case
    using set_remove_first [of k c] by auto
qed

lemma distinct_create_task:
  assumes "distinct (map doc_id c)"
  shows "distinct (map doc_id (snd (create_task new body c)))"
  using assms
  by (auto simp: create_task_def insert_one_def Let_def find_one_None
      split: option.splits sum.splits if_splits)

lemma distinct_update_task:
  assumes "distinct (map doc_id c)"
  shows "distinct (map doc_id (snd (update_task id' body c)))"
proof -
  have "map doc_id (replace_first k (apply_set flds d) c) = map doc_id c"
    if "find_one k c = Some d" for k flds d
    using find_one_id [OF that] by (simp add: map_doc_id_replace_first apply_set_def)
  with assms show ?thesis
    by (auto simp: update_task_def find_one_and_update_def Let_def
        split: option.splits sum.splits if_splits)
qed

lemma distinct_delete_task:
  assumes "distinct (map doc_id c)"
  shows "distinct (map doc_id (snd (delete_task id' c)))"
  using assms
  by (auto simp: delete_task_def delete_one_def distinct_remove_first
      split: option.splits sum.splits)

subsection \<open>Deleting\<close>

text \<open>
  Claim C8. For an id of a document of the collection (whose \<^verbatim>\<open>_id\<close>s are distinct, as
  the handlers keep them), the first \<^verbatim>\<open>delete_task\<close> returns 204 with no body and a second
  \<^verbatim>\<open>delete_task\<close> of the same id returns 404.
\<close>

theorem delete_task_twice:
  assumes "ObjectId id' = Inr oid" and "find_one (Oid oid) c = Some d"
    and "distinct (map doc_id c)"
  shows "\<exists>c'. delete_task id' c = (Inr (204, ()), c') \<and>
              delete_task id' c' = (Inl (HTTPException 404), c') \<and>
              http_status (fst (delete_task id' c)) = 204 \<and>
              http_status (fst (delete_task id' c')) = 404"
proof -
  let ?c' = "remove_first (Oid oid) c"
  have 1: "delete_task id' c = (Inr (204, ()), ?c')"
    using assms(1,2) by (simp add: delete_task_def delete_one_def)
  have "find_one (Oid oid) ?c' = None"
    using assms(3) by (rule find_one_remove_first)
  then have 2: "delete_task id' ?c' = (Inl (HTTPException 404), ?c')"
    using assms(1) by (simp add: delete_task_def delete_one_def)
  from 1 2 show ?thesis
    by (auto simp: http_status_def)
qed

theorem delete_task_twice_witness:
  "ObjectId example_id = Inr example_oid \<and>
   delete_task example_id [milk_document ''2 litres'' 10] = (Inr (204, ()), []) \<and>
   delete_task example_id [] = (Inl (HTTPException 404), [])"
proof -
  have f: "find_one (Oid example_oid) [milk_document ''2 litres'' 10]
             = Some (milk_document ''2 litres'' 10)"
    by (simp add: milk_document_def)
  have d: "distinct (map doc_id [milk_document ''2 litres'' 10])"
    by simp
  from delete_task_twice [OF ObjectId_example f d]
  obtain c' where "delete_task example_id [milk_document ''2 litres'' 10] = (Inr (204, ()), c')"
    and "delete_task example_id c' = (Inl (HTTPException 404), c')"
    by blast
  moreover have "delete_task example_id [milk_document ''2 litres'' 10] = (Inr (204, ()), [])"
    by (simp add: delete_task_def delete_one_def ObjectId_example milk_document_def)
  ultimately show ?thesis
    by (simp add: ObjectId_example)
qed

subsection \<open>Updating\<close>

lemma update_priority_fields:
  "UpdateTaskModel_validate (empty_dict\<lparr>key_priority := Given p\<rparr>)
     = Some \<lparr>upd_id = None, upd_title = None, upd_description = None,
             upd_priority = Some p, upd_status = None\<rparr>"
  "drop_None (UpdateTaskModel_dump \<lparr>upd_id = None, upd_title = None, upd_description = None,
             upd_priority = Some p, upd_status = None\<rparr>) = empty_dict\<lparr>key_priority := Given p\<rparr>"
  "len (empty_dict\<lparr>key_priority := Given p\<rparr>) = 1"
  by (simp_all add: model_defs empty_dict_def)

text \<open>
  Claim C6. An update whose body is \<^verbatim>\<open>{"priority": 5}\<close>, for the id of a document \<open>d\<close> of
  the collection, replaces \<open>d\<close> in the collection by a document with priority 5 and the
  \<^verbatim>\<open>_id\<close>, title, description and status of \<open>d\<close>; every other document stays as it is and
  in its place. The response is this document as \<^verbatim>\<open>UpdateTaskModel\<close> reads it.
\<close>

theorem update_task_priority_only:
  assumes "ObjectId id' = Inr oid" and "find_one (Oid oid) c = Some d"
  shows "\<exists>pre post d'.
           c = pre @ d # post \<and> find_one (Oid oid) pre = None \<and>
           snd (update_task id' (empty_dict\<lparr>key_priority := Given 5\<rparr>) c) = pre @ d' # post \<and>
           fst (update_task id' (empty_dict\<lparr>key_priority := Given 5\<rparr>) c)
             = serialize_response UpdateTaskModel_validate 200 (Some d') \<and>
           doc_priority d' = Given 5 \<and> doc_id d' = doc_id d \<and> doc_title d' = doc_title d \<and>
           doc_description d' = doc_description d \<and> doc_status d' = doc_status d"
proof -
  let ?d' = "d\<lparr>doc_priority := Given 5\<rparr>"
  from find_one_split [OF assms(2)] obtain pre post
    where c: "c = pre @ d # post" and pre: "find_one (Oid oid) pre = None"
    by blast
  have a: "apply_set (empty_dict\<lparr>key_priority := Given 5\<rparr>) d = ?d'"
    by (simp add: apply_set_def empty_dict_def)
  have "find_one_and_update (Oid oid) (empty_dict\<lparr>key_priority := Given 5\<rparr>) c
          = Inr (Some ?d', replace_first (Oid oid) ?d' c)"
    using assms(2) by (simp add: find_one_and_update_def int64_def a) (simp add: empty_dict_def)
  moreover have "replace_first (Oid oid) ?d' c = pre @ ?d' # post"
    unfolding c using pre find_one_id [OF assms(2)] by (rule replace_first_split)
  ultimately have u: "update_task id' (empty_dict\<lparr>key_priority := Given 5\<rparr>) c
          = (serialize_response UpdateTaskModel_validate 200 (Some ?d'), pre @ ?d' # post)"
    using assms(1) by (simp add: update_task_def update_priority_fields)
  have "c = pre @ d # post \<and> find_one (Oid oid) pre = None \<and>
           snd (update_task id' (empty_dict\<lparr>key_priority := Given 5\<rparr>) c) = pre @ ?d' # post \<and>
           fst (update_task id' (empty_dict\<lparr>key_priority := Given 5\<rparr>) c)
             = serialize_response UpdateTaskModel_validate 200 (Some ?d') \<and>
           doc_priority ?d' = Given 5 \<and> doc_id ?d' = doc_id d \<and> doc_title ?d' = doc_title d \<and>
           doc_description ?d' = doc_description d \<and> doc_status ?d' = doc_status d"
    using c pre u by simp
  then show ?thesis by blast
qed

theorem update_task_priority_only_witness:
  "ObjectId example_id = Inr example_oid \<and>
   find_one (Oid example_oid) [milk_document ''2 litres'' 10] = Some (milk_document ''2 litres'' 10) \<and>
   update_task example_id (empty_dict\<lparr>key_priority := Given 5\<rparr>) [milk_document ''2 litres'' 10]
     = (Inr (200, \<lparr>upd_id = Some example_id, upd_title = Some ''Buy milk'',
                   upd_description = Some ''2 litres'', upd_priority = Some 5,
                   upd_status = Some Status_undone\<rparr>),
        [milk_document ''2 litres'' 5])"
proof -
  have f: "find_one (Oid example_oid) [milk_document ''2 litres'' 10]
             = Some (milk_document ''2 litres'' 10)"
    by (simp add: milk_document_def)
  note th = update_task_priority_only [OF ObjectId_example f]
  have "find_one_and_update (Oid example_oid) (empty_dict\<lparr>key_priority := Given 5\<rparr>)
          [milk_document ''2 litres'' 10]
        = Inr (Some (milk_document ''2 litres'' 5), [milk_document ''2 litres'' 5])"
    by (simp add: find_one_and_update_def int64_def apply_set_def milk_document_def empty_dict_def)
  moreover have "serialize_response UpdateTaskModel_validate 200 (Some (milk_document ''2 litres'' 5))
        = Inr (200, \<lparr>upd_id = Some example_id, upd_title = Some ''Buy milk'',
                   upd_description = Some ''2 litres'', upd_priority = Some 5,
                   upd_status = Some Status_undone\<rparr>)"
    by (simp add: model_defs milk_document_def str_ObjectId_example)
  ultimately have "update_task example_id (empty_dict\<lparr>key_priority := Given 5\<rparr>)
       [milk_document ''2 litres'' 10]
     = (Inr (200, \<lparr>upd_id = Some example_id, upd_title = Some ''Buy milk'',
                   upd_description = Some ''2 litres'', upd_priority = Some 5,
                   upd_status = Some Status_undone\<rparr>),
        [milk_document ''2 litres'' 5])"
    by (simp add: update_task_def update_priority_fields ObjectId_example)
  with f th show ?thesis
    by (simp add: ObjectId_example)
qed

lemma drop_None_entries:
  "key_alias_id (drop_None d) = (if key_alias_id d = Null then Absent else key_alias_id d)"
  "key_title (drop_None d) = (if key_title d = Null then Absent else key_title d)"
  "key_description (drop_None d) = (if key_description d = Null then Absent else key_description d)"
  "key_priority (drop_None d) = (if key_priority d = Null then Absent else key_priority d)"
  "key_status (drop_None d) = (if key_status d = Null then Absent else key_status d)"
  by (cases "key_alias_id d"; cases "key_title d"; cases "key_description d";
      cases "key_priority d"; cases "key_status d"; simp add: drop_None_def)+

lemma UpdateTaskModel_validate_id:
  "UpdateTaskModel_validate body = Some m \<Longrightarrow> upd_id m = entry_option (key_alias_id body)"
  by (auto simp: UpdateTaskModel_validate_def split: option.splits)

lemma len_ge_1_alias_id: "key_alias_id d = Given v \<Longrightarrow> len d \<ge> 1"
  by (simp add: len_def)

text \<open>
  Claim C10. The filter of \<^verbatim>\<open>update_task\<close> takes out the keys whose value is \<^verbatim>\<open>None\<close> and
  no other. So when the body of an update gives \<^verbatim>\<open>_id\<close> a value \<open>v\<close>, the dict handed to
  \<^verbatim>\<open>find_one_and_update\<close> as \<^verbatim>\<open>$set\<close> has \<^verbatim>\<open>_id\<close> with \<open>v\<close>. The dict \<^verbatim>\<open>create_task\<close>
  hands to \<^verbatim>\<open>insert_one\<close> has neither \<^verbatim>\<open>_id\<close> nor \<^verbatim>\<open>id\<close>, whatever the body gave.
\<close>

theorem update_task_id_in_field_set:
  "(UpdateTaskModel_validate body = Some m \<and> key_alias_id body = Given v \<and>
    ObjectId id' = Inr oid \<longrightarrow>
      key_alias_id (drop_None (UpdateTaskModel_dump m)) = Given v \<and>
      update_task id' body c =
        (case find_one_and_update (Oid oid) (drop_None (UpdateTaskModel_dump m)) c of
           Inl f \<Rightarrow> (Inl (Unhandled f), c)
         | Inr (Some update_result, c') \<Rightarrow>
             (serialize_response UpdateTaskModel_validate 200 (Some update_result), c')
         | Inr (None, c') \<Rightarrow> (Inl (HTTPException 404), c'))) \<and>
   (TaskModel_validate body' = Some task \<longrightarrow>
      key_alias_id (TaskModel_dump_exclude_id task) = Absent \<and>
      key_id (TaskModel_dump_exclude_id task) = Absent \<and>
      create_task new body' c =
        (case insert_one new (TaskModel_dump_exclude_id task) c of
           Inl f \<Rightarrow> (Inl (Unhandled f), c)
         | Inr (inserted_id, c') \<Rightarrow>
             (serialize_response TaskModel_validate 201 (find_one inserted_id c'), c'))) \<and>
   key_alias_id (drop_None d) = (if key_alias_id d = Null then Absent else key_alias_id d) \<and>
   key_title (drop_None d) = (if key_title d = Null then Absent else key_title d) \<and>
   key_description (drop_None d)
     = (if key_description d = Null then Absent else key_description d) \<and>
   key_priority (drop_None d) = (if key_priority d = Null then Absent else key_priority d) \<and>
   key_status (drop_None d) = (if key_status d = Null then Absent else key_status d)"
proof (intro conjI impI)
  assume a: "UpdateTaskModel_validate body = Some m \<and> key_alias_id body = Given v \<and>
    ObjectId id' = Inr oid"
  then have "upd_id m = Some v"
    by (auto dest: UpdateTaskModel_validate_id)
  then show k: "key_alias_id (drop_None (UpdateTaskModel_dump m)) = Given v"
    by (simp add: drop_None_def UpdateTaskModel_dump_def)
  then have "len (drop_None (UpdateTaskModel_dump m)) \<ge> 1"
    by (rule len_ge_1_alias_id)
  with a show "update_task id' body c =
        (case find_one_and_update (Oid oid) (drop_None (UpdateTaskModel_dump m)) c of
           Inl f \<Rightarrow> (Inl (Unhandled f), c)
         | Inr (Some update_result, c') \<Rightarrow>
             (serialize_response UpdateTaskModel_validate 200 (Some update_result), c')
         | Inr (None, c') \<Rightarrow> (Inl (HTTPException 404), c'))"
    by (simp add: update_task_def Let_def)
next
  assume "TaskModel_validate body' = Some task"
  then show "create_task new body' c =
        (case insert_one new (TaskModel_dump_exclude_id task) c of
           Inl f \<Rightarrow> (Inl (Unhandled f), c)
         | Inr (inserted_id, c') \<Rightarrow>
             (serialize_response TaskModel_validate 201 (find_one inserted_id c'), c'))"
    by (simp add: create_task_def)
qed (simp_all add: TaskModel_dump_exclude_id_def drop_None_entries)

theorem update_task_id_in_field_set_witness:
  "UpdateTaskModel_validate (empty_dict\<lparr>key_alias_id := Given ''x''\<rparr>)
     = Some \<lparr>upd_id = Some ''x'', upd_title = None, upd_description = None,
             upd_priority = None, upd_status = None\<rparr> \<and>
   key_alias_id (drop_None (UpdateTaskModel_dump \<lparr>upd_id = Some ''x'', upd_title = None,
     upd_description = None, upd_priority = None, upd_status = None\<rparr>)) = Given ''x'' \<and>
   update_task example_id (empty_dict\<lparr>key_alias_id := Given ''x''\<rparr>) [milk_document ''2 litres'' 10]
     = (Inl (Unhandled OperationFailure), [milk_document ''2 litres'' 10]) \<and>
   create_task example_oid (buy_milk_described\<lparr>key_alias_id := Given ''x'', key_id := Given ''y''\<rparr>) []
     = (Inr (201, milk_task ''2 litres'' 10), [milk_document ''2 litres'' 10])"
proof -
  let ?m = "\<lparr>upd_id = Some ''x'', upd_title = None, upd_description = None,
             upd_priority = None, upd_status = None\<rparr>"
  let ?task = "(milk_task ''2 litres'' 10)\<lparr>task_id := Some ''x''\<rparr>"
  let ?body' = "buy_milk_described\<lparr>key_alias_id := Given ''x'', key_id := Given ''y''\<rparr>"
  have v: "UpdateTaskModel_validate (empty_dict\<lparr>key_alias_id := Given ''x''\<rparr>) = Some ?m"
    by (simp add: model_defs empty_dict_def)
  have k: "key_alias_id (empty_dict\<lparr>key_alias_id := Given ''x''\<rparr>) = Given ''x''"
    by simp
  have t: "TaskModel_validate ?body' = Some ?task"
    by (simp add: model_defs example_defs)
  note th = update_task_id_in_field_set
    [of "empty_dict\<lparr>key_alias_id := Given ''x''\<rparr>" ?m "''x''" example_id example_oid
        "[milk_document ''2 litres'' 10]" ?body' ?task example_oid empty_dict]
  have f: "find_one_and_update (Oid example_oid) (drop_None (UpdateTaskModel_dump ?m))
             [milk_document ''2 litres'' 10] = Inl OperationFailure"
    by (simp add: find_one_and_update_def int64_def drop_None_def UpdateTaskModel_dump_def
        milk_document_def)
  from th v k ObjectId_example f
  have 1: "key_alias_id (drop_None (UpdateTaskModel_dump ?m)) = Given ''x''"
    and 2: "update_task example_id (empty_dict\<lparr>key_alias_id := Given ''x''\<rparr>)
        [milk_document ''2 litres'' 10]
      = (Inl (Unhandled OperationFailure), [milk_document ''2 litres'' 10])"
    by simp_all
  have 3: "create_task example_oid ?body' []
     = (Inr (201, milk_task ''2 litres'' 10), [milk_document ''2 litres'' 10])"
    using create_task_response [OF t, of example_oid "[]"]
    by (simp add: int64_def inserted_document_def milk_document_def milk_task_def validate_str_def
        description_Field_def str_ObjectId_example)
  from v 1 2 3 show ?thesis by simp
qed

subsection \<open>Identifiers in requests\<close>

lemma update_task_empty_not_found:
  assumes "UpdateTaskModel_validate body = Some m"
    and "len (drop_None (UpdateTaskModel_dump m)) = 0"
    and "find_one (StrId id') c = None"
  shows "update_task id' body c = (Inl (HTTPException 404), c)"
  using assms by (simp add: update_task_def)

lemma UpdateTaskModel_validate_empty:
  "UpdateTaskModel_validate empty_dict
     = Some \<lparr>upd_id = None, upd_title = None, upd_description = None,
             upd_priority = None, upd_status = None\<rparr>"
  "len (drop_None (UpdateTaskModel_dump \<lparr>upd_id = None, upd_title = None,
     upd_description = None, upd_priority = None, upd_status = None\<rparr>)) = 0"
  by (simp_all add: model_defs empty_dict_def)

text \<open>
  Claim C1 fails on the code. The document below is in the collection under the id
  \<^verbatim>\<open>507f1f77bcf86cd799439011\<close>: \<^verbatim>\<open>show_task\<close> returns it with 200. An update of that id with
  the empty body \<^verbatim>\<open>{}\<close> returns 404: the branch for the empty update looks the string up
  without \<^verbatim>\<open>ObjectId(id)\<close>, and the \<^verbatim>\<open>_id\<close> of the document is an ObjectId.
\<close>

theorem update_task_empty_body_existing_id:
  "show_task example_id [milk_document ''2 litres'' 10]
     = Inr (200, milk_task ''2 litres'' 10) \<and>
   update_task example_id empty_dict [milk_document ''2 litres'' 10]
     = (Inl (HTTPException 404), [milk_document ''2 litres'' 10])"
proof -
  have "show_task example_id [milk_document ''2 litres'' 10]
          = serialize_response TaskModel_validate 200 (Some (milk_document ''2 litres'' 10))"
    by (simp add: show_task_def ObjectId_example) (simp add: milk_document_def)
  then have 1: "show_task example_id [milk_document ''2 litres'' 10]
     = Inr (200, milk_task ''2 litres'' 10)"
    by (simp add: serialize_response_def validate_milk_document)
  have "find_one (StrId example_id) [milk_document ''2 litres'' 10] = None"
    by (simp add: milk_document_def)
  then have 2: "update_task example_id empty_dict [milk_document ''2 litres'' 10]
     = (Inl (HTTPException 404), [milk_document ''2 litres'' 10])"
    by (rule update_task_empty_not_found [OF UpdateTaskModel_validate_empty])
  from 1 2 show ?thesis by simp
qed

text \<open>
  Claim C2 fails on the code: \<^verbatim>\<open>abc\<close> is not an ObjectId, and \<^verbatim>\<open>show_task\<close> and
  \<^verbatim>\<open>delete_task\<close> answer it with status 500, which is no client error.
\<close>

theorem invalid_id_not_client_error:
  "ObjectId ''abc'' = Inl InvalidId \<and>
   \<not> (400 \<le> http_status (show_task ''abc'' []) \<and> http_status (show_task ''abc'' []) < 500) \<and>
   \<not> (400 \<le> http_status (fst (delete_task ''abc'' [])) \<and>
      http_status (fst (delete_task ''abc'' [])) < 500)"
  by (simp add: ObjectId_def show_task_def delete_task_def http_status_def)

text \<open>
  Claim C2 as amended. For an id that \<^verbatim>\<open>ObjectId\<close> refuses, \<^verbatim>\<open>show_task\<close>, \<^verbatim>\<open>delete_task\<close>
  and an \<^verbatim>\<open>update_task\<close> whose valid body has at least one field that is not \<^verbatim>\<open>None\<close>
  end with the exception \<^verbatim>\<open>InvalidId\<close>, which no handler catches: the status is 500, and
  the collection is left as it was.
\<close>

theorem invalid_id_unhandled:
  assumes "ObjectId id' = Inl f"
  shows "show_task id' c = Inl (Unhandled InvalidId) \<and>
         http_status (show_task id' c) = 500 \<and>
         delete_task id' c = (Inl (Unhandled InvalidId), c) \<and>
         http_status (fst (delete_task id' c)) = 500 \<and>
         (UpdateTaskModel_validate body = Some m \<and>
          len (drop_None (UpdateTaskModel_dump m)) \<ge> 1 \<longrightarrow>
            update_task id' body c = (Inl (Unhandled InvalidId), c) \<and>
            http_status (fst (update_task id' body c)) = 500)"
proof -
  from assms have i: "ObjectId id' = Inl InvalidId"
    by (simp add: ObjectId_fault)
  have 1: "show_task id' c = Inl (Unhandled InvalidId)"
    by (simp add: show_task_def i)
  have 2: "delete_task id' c = (Inl (Unhandled InvalidId), c)"
    by (simp add: delete_task_def i)
  have 3: "update_task id' body c = (Inl (Unhandled InvalidId), c)"
    if "UpdateTaskModel_validate body = Some m" "len (drop_None (UpdateTaskModel_dump m)) \<ge> 1"
    using that by (simp add: update_task_def i)
  from 1 2 3 show ?thesis
    by (simp add: http_status_def)
qed

theorem invalid_id_unhandled_witness:
  "ObjectId ''abc'' = Inl InvalidId \<and>
   show_task ''abc'' [milk_document ''2 litres'' 10] = Inl (Unhandled InvalidId) \<and>
   delete_task ''abc'' [milk_document ''2 litres'' 10]
     = (Inl (Unhandled InvalidId), [milk_document ''2 litres'' 10]) \<and>
   update_task ''abc'' (empty_dict\<lparr>key_priority := Given 5\<rparr>) [milk_document ''2 litres'' 10]
     = (Inl (Unhandled InvalidId), [milk_document ''2 litres'' 10]) \<and>
   http_status (fst (update_task ''abc'' (empty_dict\<lparr>key_priority := Given 5\<rparr>)
     [milk_document ''2 litres'' 10])) = 500"
proof -
  have i: "ObjectId ''abc'' = Inl InvalidId"
    by (simp add: ObjectId_def)
  from invalid_id_unhandled
    [OF i, of "[milk_document ''2 litres'' 10]" "empty_dict\<lparr>key_priority := Given 5\<rparr>"
       "\<lparr>upd_id = None, upd_title = None, upd_description = None,
         upd_priority = Some 5, upd_status = None\<rparr>"]
  show ?thesis
    by (simp add: i update_priority_fields http_status_def)
qed

subsection \<open>Reading a created task\<close>

lemma create_task_201:
  assumes "create_task new body c = (Inr (code, r), c')"
  shows "\<exists>task. TaskModel_validate body = Some task \<and> find_one (Oid new) c = None \<and>
           c' = c @ [inserted_document new task] \<and>
           serialize_response TaskModel_validate 201 (Some (inserted_document new task))
             = Inr (code, r)"
proof -
  from assms obtain task where v: "TaskModel_validate body = Some task"
    by (auto simp: create_task_def split: option.splits)
  from assms v obtain k where
    i: "insert_one new (TaskModel_dump_exclude_id task) c = Inr (k, c')"
    and s: "serialize_response TaskModel_validate 201 (find_one k c') = Inr (code, r)"
    by (auto simp: create_task_def split: sum.splits)
  from i have k: "k = Oid new" and n: "find_one (Oid new) c = None"
    and c': "c' = c @ [inserted_document new task]"
    by (auto simp: insert_one_def Let_def TaskModel_dump_exclude_id_def inserted_document_def
        split: if_splits)
  have "find_one (Oid new) c' = Some (inserted_document new task)"
    by (simp add: c' find_one_append n inserted_document_def)
  with v n c' s k show ?thesis by auto
qed

text \<open>
  When \<^verbatim>\<open>create_task\<close> answers with a record, its \<^verbatim>\<open>id\<close> is the text of the new ObjectId,
  which is not empty, and \<^verbatim>\<open>show_task\<close> of that id returns the same record.
\<close>

lemma create_task_then_show_task:
  assumes "create_task new body c = (Inr (code, r), c')" and "generated new"
  shows "code = 201 \<and> task_id r = Some (str_ObjectId new) \<and> str_ObjectId new \<noteq> [] \<and>
         show_task (str_ObjectId new) c' = Inr (200, r)"
proof -
  from create_task_201 [OF assms(1)] obtain task where
    v: "TaskModel_validate body = Some task" and n: "find_one (Oid new) c = None"
    and c': "c' = c @ [inserted_document new task]"
    and s: "serialize_response TaskModel_validate 201 (Some (inserted_document new task))
             = Inr (code, r)"
    by blast
  from s have code: "code = 201"
    and r: "TaskModel_validate (dict_of_document (inserted_document new task)) = Some r"
    by (auto simp: serialize_response_def split: option.splits)
  from r have id: "task_id r = Some (str_ObjectId new)"
    by (auto simp: TaskModel_validate_inserted [OF v])
  have f: "find_one (Oid new) c' = Some (inserted_document new task)"
    by (simp add: c' find_one_append n inserted_document_def)
  have "show_task (str_ObjectId new) c' = Inr (200, r)"
    by (simp add: show_task_def ObjectId_str_ObjectId [OF assms(2)] f serialize_response_def r)
  with code id str_ObjectId_not_empty [OF assms(2)] show ?thesis by simp
qed

text \<open>
  Claim C5 fails on the code. The body \<^verbatim>\<open>{"title": "Buy milk", "status": "undone"}\<close> is
  valid: it passes \<^verbatim>\<open>TaskModel\<close>, with the default description \<^verbatim>\<open>""\<close>. \<^verbatim>\<open>create_task\<close>
  inserts the document and then fails: the document it returns has the description
  \<^verbatim>\<open>""\<close>, which \<^verbatim>\<open>response_model=TaskModel\<close> refuses (\<^verbatim>\<open>min_length=3\<close>), so the answer is
  status 500 and not 201. \<^verbatim>\<open>show_task\<close> of the id of the inserted document fails the same
  way.
\<close>

theorem create_task_default_description_fails:
  "TaskModel_validate buy_milk = Some ((milk_task [] 10)\<lparr>task_id := None\<rparr>) \<and>
   create_task example_oid buy_milk []
     = (Inl (Unhandled ResponseValidationError), [milk_document [] 10]) \<and>
   http_status (fst (create_task example_oid buy_milk [])) = 500 \<and>
   show_task example_id [milk_document [] 10] = Inl (Unhandled ResponseValidationError)"
proof -
  let ?task = "(milk_task [] 10)\<lparr>task_id := None\<rparr>"
  have v: "TaskModel_validate buy_milk = Some ?task"
    by (simp add: model_defs example_defs)
  have 1: "create_task example_oid buy_milk []
     = (Inl (Unhandled ResponseValidationError), [milk_document [] 10])"
    using create_task_response [OF v, of example_oid "[]"]
    by (simp add: int64_def inserted_document_def milk_document_def milk_task_def validate_str_def
        description_Field_def)
  have "TaskModel_validate (dict_of_document (milk_document [] 10)) = None"
    by (simp add: model_defs milk_document_def)
  then have 2: "show_task example_id [milk_document [] 10]
      = Inl (Unhandled ResponseValidationError)"
    by (simp add: show_task_def ObjectId_example serialize_response_def)
       (simp add: milk_document_def)
  from v 1 2 show ?thesis
    by (simp add: http_status_def)
qed


end
